theory Spec2Isabelle
  imports Complex_Main "HOL-Library.Word"
begin

unbundle bit_operations_syntax

section \<open>The parser library's value type\<close>

text \<open>
  The adapter in \<^verbatim>\<open>rapidjson_adapter.hpp\<close> reads documents through
  \<^verbatim>\<open>rapidjson::Value\<close> (the bundled release 0.1 of the library). The library is a
  collaborator of the adapter, so this section fixes the part of its interface that the
  adapter calls: the type tag, the number flags, and the accessors.

  A number is described by the setter that wrote it last. The library keeps one 64-bit
  integer cell (\<^verbatim>\<open>data_.n.i64\<close>, a union with \<^verbatim>\<open>u64\<close> and with the low 32-bit
  halves \<^verbatim>\<open>i.i\<close> and \<open>u.u\<close>) and five flags, which each setter computes from its
  argument.

  A \<^verbatim>\<open>double\<close> is modelled by what it denotes: a rational number, one of the two
  infinities, or NaN. \<open>double_eq\<close> is the \<^verbatim>\<open>==\<close> of C++ on doubles, under which
  NaN equals nothing, itself included. The rounding of floating-point arithmetic is
  outside the model; the adapter does no arithmetic on doubles.
\<close>

datatype double = Finite rat | PosInf | NegInf | NaN

fun double_eq :: "double \<Rightarrow> double \<Rightarrow> bool" where
  "double_eq NaN y = False"
| "double_eq x NaN = False"
| "double_eq x y = (x = y)"

datatype Number =
    SetInt "32 word"
  | SetUint "32 word"
  | SetInt64 "64 word"
  | SetUint64 "64 word"
  | SetDouble double

text \<open>The flags, as the constructors of \<^verbatim>\<open>GenericValue\<close> set them.\<close>

fun kIntFlag :: "Number \<Rightarrow> bool" where
  "kIntFlag (SetInt i) = True"
| "kIntFlag (SetUint u) = (u AND 0x80000000 = 0)"
| "kIntFlag (SetInt64 i64) =
     (if 0 \<le> sint i64 then i64 AND 0xFFFFFFFF80000000 = 0 else - 2147483648 \<le> sint i64)"
| "kIntFlag (SetUint64 u64) = (u64 AND 0xFFFFFFFF80000000 = 0)"
| "kIntFlag (SetDouble d) = False"

fun kUintFlag :: "Number \<Rightarrow> bool" where
  "kUintFlag (SetInt i) = (0 \<le> sint i)"
| "kUintFlag (SetUint u) = True"
| "kUintFlag (SetInt64 i64) = (0 \<le> sint i64 \<and> i64 AND 0xFFFFFFFF00000000 = 0)"
| "kUintFlag (SetUint64 u64) = (u64 AND 0xFFFFFFFF00000000 = 0)"
| "kUintFlag (SetDouble d) = False"

fun kInt64Flag :: "Number \<Rightarrow> bool" where
  "kInt64Flag (SetInt i) = True"
| "kInt64Flag (SetUint u) = True"
| "kInt64Flag (SetInt64 i64) = True"
| "kInt64Flag (SetUint64 u64) = (u64 AND 0x8000000000000000 = 0)"
| "kInt64Flag (SetDouble d) = False"

fun kUint64Flag :: "Number \<Rightarrow> bool" where
  "kUint64Flag (SetInt i) = (0 \<le> sint i)"
| "kUint64Flag (SetUint u) = True"
| "kUint64Flag (SetInt64 i64) = (0 \<le> sint i64)"
| "kUint64Flag (SetUint64 u64) = True"
| "kUint64Flag (SetDouble d) = False"

fun kDoubleFlag :: "Number \<Rightarrow> bool" where
  "kDoubleFlag (SetDouble d) = True"
| "kDoubleFlag n = False"

text \<open>
  The integer cell. \<^verbatim>\<open>SetInt\<close> stores its argument sign-extended, \<^verbatim>\<open>SetUint\<close>
  zero-extended. The cell of a double holds the bits of the double, which the adapter
  never reads as an integer (every integer accessor is called under its own flag); it
  is 0 here.
\<close>

fun i64_cell :: "Number \<Rightarrow> 64 word" where
  "i64_cell (SetInt i) = scast i"
| "i64_cell (SetUint u) = ucast u"
| "i64_cell (SetInt64 i64) = i64"
| "i64_cell (SetUint64 u64) = u64"
| "i64_cell (SetDouble d) = 0"

text \<open>
  The integer that an integer number holds: the argument of its setter, read in the
  setter's own type (signed for \<^verbatim>\<open>int\<close> and \<^verbatim>\<open>int64_t\<close>, unsigned for
  \<^verbatim>\<open>unsigned\<close> and \<^verbatim>\<open>uint64_t\<close>).
\<close>

fun integer_value :: "Number \<Rightarrow> int" where
  "integer_value (SetInt i) = sint i"
| "integer_value (SetUint u) = uint u"
| "integer_value (SetInt64 i64) = sint i64"
| "integer_value (SetUint64 u64) = uint u64"
| "integer_value (SetDouble d) = 0"

text \<open>
  \<^verbatim>\<open>GetDouble\<close> converts an integer number to a double. The conversion of a 64-bit
  integer rounds to 53 bits in the library; the adapter calls \<^verbatim>\<open>GetDouble\<close> on
  doubles only (lemma \<open>no_integer_flag_is_double\<close> below), where it returns the stored
  double; on integers the model gives the exact value.
\<close>

fun number_GetDouble :: "Number \<Rightarrow> double" where
  "number_GetDouble (SetDouble d) = d"
| "number_GetDouble (SetInt i) = Finite (of_int (sint i))"
| "number_GetDouble (SetUint u) = Finite (of_int (uint u))"
| "number_GetDouble (SetInt64 i64) = Finite (of_int (sint i64))"
| "number_GetDouble (SetUint64 u64) = Finite (of_int (uint u64))"

text \<open>
  A node of a document. Objects keep their members in insertion order and may repeat a
  name, so they are association lists. \<open>VOther\<close> stands for a node whose type tag is
  none of the seven enumerators of \<^verbatim>\<open>rapidjson::Type\<close>: the case that the
  \<^verbatim>\<open>default:\<close> branch of \<^verbatim>\<open>RapidJsonFrozenValue::copy\<close> handles.
\<close>

datatype Value =
    VNull
  | VBool bool
  | VObject "(string \<times> Value) list"
  | VArray "Value list"
  | VString string
  | VNumber Number
  | VOther

datatype Type =
    kNullType | kFalseType | kTrueType | kObjectType | kArrayType | kStringType
  | kNumberType | kOtherType

fun GetType :: "Value \<Rightarrow> Type" where
  "GetType VNull = kNullType"
| "GetType (VBool False) = kFalseType"
| "GetType (VBool True) = kTrueType"
| "GetType (VObject ms) = kObjectType"
| "GetType (VArray vs) = kArrayType"
| "GetType (VString s) = kStringType"
| "GetType (VNumber n) = kNumberType"
| "GetType VOther = kOtherType"

definition IsNull :: "Value \<Rightarrow> bool" where
  "IsNull v = (GetType v = kNullType)"

definition IsBool :: "Value \<Rightarrow> bool" where
  "IsBool v = (GetType v = kFalseType \<or> GetType v = kTrueType)"

definition IsObject :: "Value \<Rightarrow> bool" where
  "IsObject v = (GetType v = kObjectType)"

definition IsArray :: "Value \<Rightarrow> bool" where
  "IsArray v = (GetType v = kArrayType)"

definition IsString :: "Value \<Rightarrow> bool" where
  "IsString v = (GetType v = kStringType)"

definition IsNumber :: "Value \<Rightarrow> bool" where
  "IsNumber v = (GetType v = kNumberType)"

fun IsInt :: "Value \<Rightarrow> bool" where
  "IsInt (VNumber n) = kIntFlag n"
| "IsInt v = False"

fun IsUint :: "Value \<Rightarrow> bool" where
  "IsUint (VNumber n) = kUintFlag n"
| "IsUint v = False"

fun IsInt64 :: "Value \<Rightarrow> bool" where
  "IsInt64 (VNumber n) = kInt64Flag n"
| "IsInt64 v = False"

fun IsUint64 :: "Value \<Rightarrow> bool" where
  "IsUint64 (VNumber n) = kUint64Flag n"
| "IsUint64 v = False"

fun IsDouble :: "Value \<Rightarrow> bool" where
  "IsDouble (VNumber n) = kDoubleFlag n"
| "IsDouble v = False"

text \<open>
  The accessors. Each one asserts its own kind in the library; the adapter calls it only
  after the matching test, and outside that kind the model returns a fixed default.
\<close>

fun GetBool :: "Value \<Rightarrow> bool" where
  "GetBool (VBool b) = b"
| "GetBool v = False"

fun GetInt :: "Value \<Rightarrow> 32 word" where
  "GetInt (VNumber n) = ucast (i64_cell n)"
| "GetInt v = 0"

fun GetUint :: "Value \<Rightarrow> 32 word" where
  "GetUint (VNumber n) = ucast (i64_cell n)"
| "GetUint v = 0"

fun GetInt64 :: "Value \<Rightarrow> 64 word" where
  "GetInt64 (VNumber n) = i64_cell n"
| "GetInt64 v = 0"

fun GetUint64 :: "Value \<Rightarrow> 64 word" where
  "GetUint64 (VNumber n) = i64_cell n"
| "GetUint64 v = 0"

fun GetDouble :: "Value \<Rightarrow> double" where
  "GetDouble (VNumber n) = number_GetDouble n"
| "GetDouble v = Finite 0"

fun GetString :: "Value \<Rightarrow> string" where
  "GetString (VString s) = s"
| "GetString v = []"

fun GetStringLength :: "Value \<Rightarrow> nat" where
  "GetStringLength (VString s) = length s"
| "GetStringLength v = 0"

fun elements :: "Value \<Rightarrow> Value list" where
  "elements (VArray vs) = vs"
| "elements v = []"

fun members :: "Value \<Rightarrow> (string \<times> Value) list" where
  "members (VObject ms) = ms"
| "members v = []"

definition Size :: "Value \<Rightarrow> nat" where
  "Size v = length (elements v)"

text \<open>
  A \<^verbatim>\<open>const rapidjson::Value &\<close>: the node referred to, together with the address
  at which the node keeps its elements or members (\<^verbatim>\<open>data_.a.elements\<close>,
  \<^verbatim>\<open>data_.o.members\<close>). Addresses count in units of one element or member, and 0 is
  the null pointer. The library's iterators are plain pointers into that storage.
\<close>

datatype ValueRef = ValueRef (storage: nat) (node: Value)

definition Begin :: "ValueRef \<Rightarrow> nat" where
  "Begin r = storage r"

definition End :: "ValueRef \<Rightarrow> nat" where
  "End r = storage r + length (elements (node r))"

definition MemberBegin :: "ValueRef \<Rightarrow> nat" where
  "MemberBegin r = storage r"

definition MemberEnd :: "ValueRef \<Rightarrow> nat" where
  "MemberEnd r = storage r + length (members (node r))"

section \<open>RapidJsonValue\<close>

text \<open>
  An output parameter (\<^verbatim>\<open>bool &result\<close> and the like) is an extra argument holding
  the caller's variable before the call; the function returns its \<^verbatim>\<open>bool\<close>
  together with the variable after the call.
\<close>

text \<open>\<^verbatim>\<open>emptyObject()\<close>: \<^verbatim>\<open>rapidjson::Value object(rapidjson::kObjectType)\<close>, whose
  constructor zeroes the data, so the member pointer is null.\<close>

definition RapidJsonValue_emptyObject :: ValueRef where
  "RapidJsonValue_emptyObject = ValueRef 0 (VObject [])"

definition RapidJsonValue_default :: ValueRef where
  "RapidJsonValue_default = RapidJsonValue_emptyObject"

definition getArraySize :: "ValueRef \<Rightarrow> nat \<Rightarrow> bool \<times> nat" where
  "getArraySize v result =
     (if IsArray (node v) then (True, Size (node v)) else (False, result))"

definition getBool :: "ValueRef \<Rightarrow> bool \<Rightarrow> bool \<times> bool" where
  "getBool v result =
     (if IsBool (node v) then (True, GetBool (node v)) else (False, result))"

definition getDouble :: "ValueRef \<Rightarrow> double \<Rightarrow> bool \<times> double" where
  "getDouble v result =
     (if IsDouble (node v) then (True, GetDouble (node v)) else (False, result))"

definition getInteger :: "ValueRef \<Rightarrow> 64 word \<Rightarrow> bool \<times> 64 word" where
  "getInteger v result =
     (if IsInt (node v) then (True, scast (GetInt (node v)))
      else if IsInt64 (node v) then (True, GetInt64 (node v))
      else if IsUint (node v) then (True, ucast (GetUint (node v)))
      else if IsUint64 (node v) then (True, GetUint64 (node v))
      else (False, result))"

definition getObjectSize :: "ValueRef \<Rightarrow> nat \<Rightarrow> bool \<times> nat" where
  "getObjectSize v result =
     (if IsObject (node v) then (True, MemberEnd v - MemberBegin v) else (False, result))"

definition getString :: "ValueRef \<Rightarrow> string \<Rightarrow> bool \<times> string" where
  "getString v result =
     (if IsString (node v)
      then (True, take (GetStringLength (node v)) (GetString (node v)))
      else (False, result))"

definition hasStrictTypes :: bool where
  "hasStrictTypes = True"

definition isArray :: "ValueRef \<Rightarrow> bool" where
  "isArray v = IsArray (node v)"

definition isBool :: "ValueRef \<Rightarrow> bool" where
  "isBool v = IsBool (node v)"

definition isDouble :: "ValueRef \<Rightarrow> bool" where
  "isDouble v = IsDouble (node v)"

definition isInteger :: "ValueRef \<Rightarrow> bool" where
  "isInteger v =
     (IsInt (node v) \<or> IsInt64 (node v) \<or> IsUint (node v) \<or> IsUint64 (node v))"

definition isNull :: "ValueRef \<Rightarrow> bool" where
  "isNull v = IsNull (node v)"

definition isNumber :: "ValueRef \<Rightarrow> bool" where
  "isNumber v = IsNumber (node v)"

definition isObject :: "ValueRef \<Rightarrow> bool" where
  "isObject v = IsObject (node v)"

definition isString :: "ValueRef \<Rightarrow> bool" where
  "isString v = IsString (node v)"

section \<open>RapidJsonFrozenValue\<close>

text \<open>
  The adapter throws \<^verbatim>\<open>std::runtime_error\<close> in three places. The errors are told
  apart by the place: \<open>TypeMismatch\<close> for "Value is not an array." and "Value is not an
  object.", \<open>UnsupportedValue\<close> for "Failed to copy rapidjson::Value".
\<close>

datatype error = TypeMismatch | UnsupportedValue






section \<open>The comparison of the generic adapter\<close>

text \<open>
  Modelled from the spec: \<^verbatim>\<open>BasicAdapter::equalTo\<close>, declared in
  \<^verbatim>\<open>valijson/adapters/basic_adapter.hpp\<close>, which is not among the sources at hand.
  The definitions follow section 4.3 of the specification: nulls equal nulls; booleans
  equal iff same value; strings equal iff identical content; numbers equal iff
  numerically equal, and, only when \<open>strict\<close> holds, both sides' representational kind
  (integer or floating-point) must also match, per each side's own strictness flag;
  arrays equal iff same length and pairwise equal in order; objects equal iff same
  member count and every member name in one has a matching name in the other with an
  equal value; any kind mismatch is never equal. Both sides are RapidJson adapters here,
  so both strictness flags are \<open>hasStrictTypes\<close>. Two numbers are numerically equal
  when the values they denote are equal as \<^verbatim>\<open>==\<close> has it, so a NaN is numerically
  equal to nothing.
\<close>

definition numeric_value :: "Number \<Rightarrow> double" where
  "numeric_value n =
     (if kDoubleFlag n then number_GetDouble n else Finite (of_int (integer_value n)))"

definition number_equalTo :: "Number \<Rightarrow> Number \<Rightarrow> bool \<Rightarrow> bool" where
  "number_equalTo a b strict =
     (double_eq (numeric_value a) (numeric_value b) \<and>
      (if strict \<and> (hasStrictTypes \<or> hasStrictTypes) then kDoubleFlag a = kDoubleFlag b
       else True))"

fun equalTo :: "Value \<Rightarrow> Value \<Rightarrow> bool \<Rightarrow> bool" where
  "equalTo VNull other strict = (case other of VNull \<Rightarrow> True | _ \<Rightarrow> False)"
| "equalTo (VBool b) other strict = (case other of VBool c \<Rightarrow> b = c | _ \<Rightarrow> False)"
| "equalTo (VString s) other strict = (case other of VString t \<Rightarrow> s = t | _ \<Rightarrow> False)"
| "equalTo (VNumber a) other strict =
     (case other of VNumber b \<Rightarrow> number_equalTo a b strict | _ \<Rightarrow> False)"
| "equalTo (VArray xs) other strict =
     (case other of
        VArray ys \<Rightarrow> length xs = length ys \<and> list_all2 (\<lambda>x y. equalTo x y strict) xs ys
      | _ \<Rightarrow> False)"
| "equalTo (VObject ms) other strict =
     (case other of
        VObject ns \<Rightarrow>
          length ms = length ns \<and>
          list_all (\<lambda>m. list_ex (\<lambda>n. fst n = fst m \<and> equalTo (snd m) (snd n) strict) ns) ms
      | _ \<Rightarrow> False)"
| "equalTo VOther other strict = False"


section \<open>RapidJsonArray, RapidJsonObject and their iterators\<close>

datatype RapidJsonArrayValueIterator = RapidJsonArrayValueIterator (itr: nat)

datatype RapidJsonObjectMemberIterator = RapidJsonObjectMemberIterator (mitr: nat)

datatype RapidJsonArray = RapidJsonArray (array_ref: ValueRef)

datatype RapidJsonObject = RapidJsonObject (object_ref: ValueRef)

text \<open>\<^verbatim>\<open>emptyArray()\<close> and \<^verbatim>\<open>emptyObject()\<close> of the two views: singletons built
  by \<^verbatim>\<open>rapidjson::Value(rapidjson::kArrayType)\<close> and
  \<^verbatim>\<open>rapidjson::Value(rapidjson::kObjectType)\<close>, with null storage.\<close>

definition RapidJsonArray_emptyArray :: ValueRef where
  "RapidJsonArray_emptyArray = ValueRef 0 (VArray [])"

definition RapidJsonObject_emptyObject :: ValueRef where
  "RapidJsonObject_emptyObject = ValueRef 0 (VObject [])"

definition RapidJsonArray_default :: RapidJsonArray where
  "RapidJsonArray_default = RapidJsonArray RapidJsonArray_emptyArray"

definition RapidJsonArray_of :: "ValueRef \<Rightarrow> error + RapidJsonArray" where
  "RapidJsonArray_of v =
     (if \<not> IsArray (node v) then Inl TypeMismatch else Inr (RapidJsonArray v))"

definition Array_begin :: "RapidJsonArray \<Rightarrow> RapidJsonArrayValueIterator" where
  "Array_begin a = RapidJsonArrayValueIterator (Begin (array_ref a))"

definition Array_end :: "RapidJsonArray \<Rightarrow> RapidJsonArrayValueIterator" where
  "Array_end a = RapidJsonArrayValueIterator (End (array_ref a))"

definition Array_size :: "RapidJsonArray \<Rightarrow> nat" where
  "Array_size a = Size (node (array_ref a))"

definition RapidJsonObject_default :: RapidJsonObject where
  "RapidJsonObject_default = RapidJsonObject RapidJsonObject_emptyObject"

definition RapidJsonObject_of :: "ValueRef \<Rightarrow> error + RapidJsonObject" where
  "RapidJsonObject_of v =
     (if \<not> IsObject (node v) then Inl TypeMismatch else Inr (RapidJsonObject v))"

definition Object_begin :: "RapidJsonObject \<Rightarrow> RapidJsonObjectMemberIterator" where
  "Object_begin obj = RapidJsonObjectMemberIterator (MemberBegin (object_ref obj))"

definition Object_end :: "RapidJsonObject \<Rightarrow> RapidJsonObjectMemberIterator" where
  "Object_end obj = RapidJsonObjectMemberIterator (MemberEnd (object_ref obj))"

definition Object_size :: "RapidJsonObject \<Rightarrow> nat" where
  "Object_size obj = MemberEnd (object_ref obj) - MemberBegin (object_ref obj)"

text \<open>
  Reading through an iterator reads the cell it points to. The cells of a container are
  those of its storage; a pointer outside them has no cell to read (\<open>None\<close>). The
  adapter that \<^verbatim>\<open>dereference\<close> returns is represented by the node it wraps.
\<close>

definition element_at :: "ValueRef \<Rightarrow> nat \<Rightarrow> Value option" where
  "element_at r p =
     (if storage r \<le> p \<and> p < storage r + length (elements (node r))
      then Some (elements (node r) ! (p - storage r)) else None)"

definition member_at :: "ValueRef \<Rightarrow> nat \<Rightarrow> (string \<times> Value) option" where
  "member_at r p =
     (if storage r \<le> p \<and> p < storage r + length (members (node r))
      then Some (members (node r) ! (p - storage r)) else None)"

definition Array_dereference :: "RapidJsonArray \<Rightarrow> RapidJsonArrayValueIterator \<Rightarrow> Value option" where
  "Array_dereference a it = element_at (array_ref a) (itr it)"

definition Array_equal :: "RapidJsonArrayValueIterator \<Rightarrow> RapidJsonArrayValueIterator \<Rightarrow> bool" where
  "Array_equal it other = (itr it = itr other)"

definition Array_increment :: "RapidJsonArrayValueIterator \<Rightarrow> RapidJsonArrayValueIterator" where
  "Array_increment it = RapidJsonArrayValueIterator (itr it + 1)"

definition Object_dereference ::
  "RapidJsonObject \<Rightarrow> RapidJsonObjectMemberIterator \<Rightarrow> (string \<times> Value) option" where
  "Object_dereference obj it =
     (case member_at (object_ref obj) (mitr it) of
        None \<Rightarrow> None
      | Some m \<Rightarrow> Some (take (length (fst m)) (fst m), snd m))"

definition Object_equal ::
  "RapidJsonObjectMemberIterator \<Rightarrow> RapidJsonObjectMemberIterator \<Rightarrow> bool" where
  "Object_equal it other = (mitr it = mitr other)"

definition Object_increment :: "RapidJsonObjectMemberIterator \<Rightarrow> RapidJsonObjectMemberIterator" where
  "Object_increment it = RapidJsonObjectMemberIterator (mitr it + 1)"

text \<open>
  \<^verbatim>\<open>propertyName.c_str()\<close> hands the library a pointer to the characters of the name
  followed by a terminating zero; the library, given only the pointer, reads up to the
  first zero character.
\<close>

definition c_str :: "string \<Rightarrow> string" where
  "c_str s = takeWhile (\<lambda>c. c \<noteq> CHR 0x00) s"

text \<open>
  \<^verbatim>\<open>FindMember(const Ch* name)\<close> walks the members in order and returns a pointer to
  the first whose name has the length and the characters of \<^verbatim>\<open>name\<close>. What it returns
  when there is none depends on the release of the library, as the comment in
  \<^verbatim>\<open>RapidJsonObject::find\<close> explains: a null pointer in the older releases
  (\<open>null_on_miss\<close>), \<^verbatim>\<open>MemberEnd()\<close> in the later ones.
\<close>

fun first_named :: "string \<Rightarrow> (string \<times> Value) list \<Rightarrow> nat option" where
  "first_named name [] = None"
| "first_named name (m # ms) =
     (if fst m = name then Some 0
      else case first_named name ms of None \<Rightarrow> None | Some i \<Rightarrow> Some (Suc i))"

definition FindMember :: "bool \<Rightarrow> ValueRef \<Rightarrow> string \<Rightarrow> nat" where
  "FindMember null_on_miss r name =
     (case first_named name (members (node r)) of
        Some i \<Rightarrow> storage r + i
      | None \<Rightarrow> if null_on_miss then 0 else MemberEnd r)"

definition Object_find ::
  "bool \<Rightarrow> RapidJsonObject \<Rightarrow> string \<Rightarrow> RapidJsonObjectMemberIterator" where
  "Object_find null_on_miss obj propertyName =
     (let foundItr = FindMember null_on_miss (object_ref obj) (c_str propertyName);
          empty = ValueRef 0 (VObject []);
          maybeEnd = FindMember null_on_miss empty (c_str [])
      in if maybeEnd \<noteq> MemberBegin empty + 1
         then RapidJsonObjectMemberIterator
                (if foundItr = maybeEnd then MemberEnd (object_ref obj) else foundItr)
         else RapidJsonObjectMemberIterator foundItr)"

text \<open>A reference is well placed when a container that has cells does not keep them at
  the null pointer.\<close>

definition placed :: "ValueRef \<Rightarrow> bool" where
  "placed r = (if elements (node r) = [] \<and> members (node r) = [] then True else storage r \<noteq> 0)"

section \<open>Values of the data model, and samples\<close>




definition sample_array :: RapidJsonArray where
  "sample_array = RapidJsonArray (ValueRef 40 (VArray [VNull, VBool True, VString ''z'']))"

definition sample_object :: RapidJsonObject where
  "sample_object =
     RapidJsonObject
       (ValueRef 64 (VObject [(''a'', VNumber (SetInt 1)), (''b'', VNumber (SetInt 2))]))"

section \<open>Facts about the number flags\<close>

text \<open>The masks of the library's constructors are range tests.\<close>

lemma and_not_mask_zero_iff:
  "(x AND NOT (mask n) = 0) = (uint x < 2 ^ n)" for x :: "'a::len word"
proof -
  have "(x AND NOT (mask n) = 0) = (take_bit n x = x)"
    by (auto simp add: bit_eq_iff bit_and_iff bit_not_iff bit_mask_iff bit_take_bit_iff
        dest: bit_imp_le_length)
  also have "\<dots> = (x AND mask n = x)"
    by (simp add: take_bit_eq_mask)
  also have "\<dots> = (uint x < 2 ^ n)"
    by (rule mask_eq_iff)
  finally show ?thesis .
qed

lemma top_bit32_clear_iff: "(u AND 0x80000000 = 0) = (uint u < 2 ^ 31)" for u :: "32 word"
proof -
  have "(0x80000000 :: 32 word) = NOT (mask 31)" by (simp add: mask_eq_exp_minus_1)
  then show ?thesis by (simp only: and_not_mask_zero_iff)
qed

lemma high33_clear_iff:
  "(x AND 0xFFFFFFFF80000000 = 0) = (uint x < 2 ^ 31)" for x :: "64 word"
proof -
  have "(0xFFFFFFFF80000000 :: 64 word) = NOT (mask 31)" by (simp add: mask_eq_exp_minus_1)
  then show ?thesis by (simp only: and_not_mask_zero_iff)
qed


lemma top_bit64_clear_iff:
  "(x AND 0x8000000000000000 = 0) = (uint x < 2 ^ 63)" for x :: "64 word"
proof -
  have "(0x8000000000000000 :: 64 word) = NOT (mask 63)" by (simp add: mask_eq_exp_minus_1)
  then show ?thesis by (simp only: and_not_mask_zero_iff)
qed

lemma uint_eq_sint_nonneg: "0 \<le> sint x \<Longrightarrow> uint x = sint x" for x :: "'a::len word"
proof -
  assume a: "0 \<le> sint x"
  have "sint x < 2 ^ (LENGTH('a) - 1)" by (rule sint_lt)
  also have "(2::int) ^ (LENGTH('a) - 1) \<le> 2 ^ LENGTH('a)" by (rule power_increasing) simp_all
  finally have "take_bit LENGTH('a) (sint x) = sint x"
    using a by (simp add: take_bit_int_eq_self)
  then show ?thesis by (simp add: uint_sint)
qed

lemma sint32_range: "- 2147483648 \<le> sint i \<and> sint i < 2147483648" for i :: "32 word"
  using sint_ge [of i] sint_lt [of i] by simp

lemma sint64_range: "- 9223372036854775808 \<le> sint x \<and> sint x < 9223372036854775808"
  for x :: "64 word"
  using sint_ge [of x] sint_lt [of x] by simp

lemma uint_lower: "- 2147483648 \<le> uint w" "- 9223372036854775808 \<le> uint w"
proof -
  have z: "0 \<le> uint w" by simp
  show "- 2147483648 \<le> uint w" by (rule order_trans [OF _ z]) simp
  show "- 9223372036854775808 \<le> uint w" by (rule order_trans [OF _ z]) simp
qed

lemma uint32_upper: "uint u < 4294967296" for u :: "32 word"
  using uint_lt2p [of u] by simp

lemma uint64_upper: "uint x < 18446744073709551616" for x :: "64 word"
  using uint_lt2p [of x] by simp

text \<open>Each flag says that the integer held fits the type the flag names.\<close>

lemma kIntFlag_iff:
  "kIntFlag n =
     (\<not> kDoubleFlag n \<and> - 2147483648 \<le> integer_value n \<and> integer_value n < 2147483648)"
proof (cases n)
  case (SetInt i) then show ?thesis using sint32_range [of i] by simp
next
  case (SetUint u) then show ?thesis using uint_lower [of u] by (simp add: top_bit32_clear_iff)
next
  case (SetInt64 x) then show ?thesis
    using uint_eq_sint_nonneg [of x] by (auto simp add: high33_clear_iff)
next
  case (SetUint64 x) then show ?thesis using uint_lower [of x] by (simp add: high33_clear_iff)
next
  case (SetDouble d) then show ?thesis by simp
qed


lemma kInt64Flag_iff:
  "kInt64Flag n =
     (\<not> kDoubleFlag n \<and> - 9223372036854775808 \<le> integer_value n
      \<and> integer_value n < 9223372036854775808)"
proof (cases n)
  case (SetInt i) then show ?thesis using sint32_range [of i] by simp
next
  case (SetUint u) then show ?thesis using uint_lower [of u] uint32_upper [of u] by simp
next
  case (SetInt64 x) then show ?thesis using sint64_range [of x] by simp
next
  case (SetUint64 x) then show ?thesis using uint_lower [of x] by (simp add: top_bit64_clear_iff)
next
  case (SetDouble d) then show ?thesis by simp
qed

lemma kUint64Flag_iff:
  "kUint64Flag n =
     (\<not> kDoubleFlag n \<and> 0 \<le> integer_value n \<and> integer_value n < 18446744073709551616)"
proof (cases n)
  case (SetInt i) then show ?thesis using sint32_range [of i] by auto
next
  case (SetUint u) then show ?thesis using uint_lower [of u] uint32_upper [of u] by simp
next
  case (SetInt64 x) then show ?thesis using sint64_range [of x] by auto
next
  case (SetUint64 x) then show ?thesis using uint64_upper [of x] by simp
next
  case (SetDouble d) then show ?thesis by simp
qed

lemma i64_cell_eq: "\<not> kDoubleFlag n \<Longrightarrow> i64_cell n = word_of_int (integer_value n)"
proof (cases n)
  case (SetInt i) then show ?thesis by (simp only: i64_cell.simps integer_value.simps scast_eq)
next
  case (SetUint u) then show ?thesis by (simp only: i64_cell.simps integer_value.simps ucast_eq)
next
  case (SetInt64 x) then show ?thesis by simp
next
  case (SetUint64 x) then show ?thesis by simp
next
  case (SetDouble d) then show ?thesis by simp
qed

lemma sint_low32: "sint (ucast (word_of_int k :: 64 word) :: 32 word) = signed_take_bit 31 k"
  by (simp add: ucast_eq sint_sbintrunc' uint_word_of_int_eq signed_take_bit_take_bit)


lemma sint_cell64: "sint (word_of_int k :: 64 word) = signed_take_bit 63 k"
  by (simp add: sint_sbintrunc')


lemma integer_has_flag: "\<not> kDoubleFlag n \<Longrightarrow> kInt64Flag n \<or> kUint64Flag n"
proof (cases n)
  case (SetUint64 x) then show ?thesis by simp
qed simp_all

lemma no_integer_flag_is_double:
  "\<not> kIntFlag n \<Longrightarrow> \<not> kUintFlag n \<Longrightarrow> \<not> kInt64Flag n \<Longrightarrow> \<not> kUint64Flag n
    \<Longrightarrow> kDoubleFlag n"
  using integer_has_flag [of n] by blast

lemma double_has_no_integer_flag:
  "kDoubleFlag n \<Longrightarrow>
     \<not> kIntFlag n \<and> \<not> kUintFlag n \<and> \<not> kInt64Flag n \<and> \<not> kUint64Flag n"
  by (cases n) simp_all

lemma isInteger_not_isDouble: "\<not> (isInteger v \<and> isDouble v)"
proof (cases "node v")
  case (VNumber n)
  then show ?thesis
    using double_has_no_integer_flag [of n] by (auto simp add: isInteger_def isDouble_def)
qed (simp_all add: isInteger_def isDouble_def)

lemma getInteger_number:
  assumes "\<not> kDoubleFlag n" and "integer_value n < 9223372036854775808"
  shows "fst (getInteger (ValueRef p (VNumber n)) r)"
    and "sint (snd (getInteger (ValueRef p (VNumber n)) r)) = integer_value n"
proof -
  let ?k = "integer_value n"
  have cell: "i64_cell n = word_of_int ?k" using assms(1) by (rule i64_cell_eq)
  have i64: "kInt64Flag n \<or> kIntFlag n"
    using integer_has_flag [OF assms(1)] assms by (auto simp add: kInt64Flag_iff kUint64Flag_iff)
  show "fst (getInteger (ValueRef p (VNumber n)) r)"
    using i64 by (auto simp add: getInteger_def)
  show "sint (snd (getInteger (ValueRef p (VNumber n)) r)) = ?k"
  proof (cases "kIntFlag n")
    case True
    then have rng: "- (2 ^ 31) \<le> ?k \<and> ?k < 2 ^ 31" by (simp add: kIntFlag_iff)
    have "sint (scast (ucast (i64_cell n) :: 32 word) :: 64 word)
        = sint (ucast (i64_cell n) :: 32 word)"
      by (rule sint_up_scast) (simp add: is_up)
    also have "\<dots> = signed_take_bit 31 ?k" by (simp only: cell sint_low32)
    also have "\<dots> = ?k" using rng by (simp add: signed_take_bit_int_eq_self)
    finally show ?thesis using True by (simp add: getInteger_def)
  next
    case False
    then have f64: "kInt64Flag n" using i64 by simp
    then have rng: "- (2 ^ 63) \<le> ?k \<and> ?k < 2 ^ 63" by (simp add: kInt64Flag_iff)
    have "sint (i64_cell n) = signed_take_bit 63 ?k" by (simp only: cell sint_cell64)
    also have "\<dots> = ?k" using rng by (simp add: signed_take_bit_int_eq_self)
    finally show ?thesis using False f64 by (simp add: getInteger_def)
  qed
qed

section \<open>Facts about copy and the comparison\<close>











section \<open>Facts about the iterators and the member lookup\<close>

lemma Array_increment_funpow:
  "(Array_increment ^^ k) (RapidJsonArrayValueIterator p) = RapidJsonArrayValueIterator (p + k)"
  by (induction k) (simp_all add: Array_increment_def)

lemma Object_increment_funpow:
  "(Object_increment ^^ k) (RapidJsonObjectMemberIterator p)
     = RapidJsonObjectMemberIterator (p + k)"
  by (induction k) (simp_all add: Object_increment_def)

lemma first_named_None: "(first_named name ms = None) = (map_of ms name = None)"
  by (induction ms) (auto split: option.splits)

lemma first_named_Some:
  "first_named name ms = Some i \<Longrightarrow>
     i < length ms \<and> map_of ms name = Some (snd (ms ! i)) \<and> fst (ms ! i) = name"
proof (induction ms arbitrary: i)
  case Nil
  then show ?case by simp
next
  case (Cons m ms)
  show ?case
  proof (cases "fst m = name")
    case True
    then show ?thesis using Cons.prems by (cases m) auto
  next
    case False
    then obtain j where j: "first_named name ms = Some j" "i = Suc j"
      using Cons.prems by (auto split: option.splits)
    from Cons.IH [OF j(1)] False j(2) show ?thesis by (cases m) auto
  qed
qed

lemma c_str_no_zero: "CHR 0x00 \<notin> set s \<Longrightarrow> c_str s = s"
  by (auto simp add: c_str_def)

lemma maybeEnd_null: "FindMember null_on_miss (ValueRef 0 (VObject [])) (c_str []) = 0"
  by (simp add: FindMember_def c_str_def MemberEnd_def)

text \<open>The test \<^verbatim>\<open>maybeEnd != empty.MemberBegin() + 1\<close> holds with either kind of
  library, so \<open>Object_find\<close> always takes its first \<^verbatim>\<open>return\<close>.\<close>

lemma Object_find_eq:
  "Object_find null_on_miss obj propertyName =
     RapidJsonObjectMemberIterator
       (if FindMember null_on_miss (object_ref obj) (c_str propertyName) = 0
        then MemberEnd (object_ref obj)
        else FindMember null_on_miss (object_ref obj) (c_str propertyName))"
  by (simp add: Object_find_def Let_def maybeEnd_null MemberBegin_def)

text \<open>What \<open>Object_find\<close> does for any name: it looks up the characters of the name that
  come before its first zero character.\<close>

lemma find_present:
  assumes "placed (object_ref obj)"
    and "map_of (members (node (object_ref obj))) (c_str s) = Some v"
  shows "Object_dereference obj (Object_find null_on_miss obj s) = Some (c_str s, v)"
proof -
  let ?r = "object_ref obj"
  let ?ms = "members (node ?r)"
  from assms(2) obtain i where i: "first_named (c_str s) ?ms = Some i"
    using first_named_None [of "c_str s" ?ms] by (cases "first_named (c_str s) ?ms") simp_all
  from first_named_Some [OF i] assms(2)
  have p: "i < length ?ms" "snd (?ms ! i) = v" "fst (?ms ! i) = c_str s" by simp_all
  then have "?ms \<noteq> []" by auto
  then have st: "storage ?r \<noteq> 0" using assms(1) by (simp add: placed_def)
  have fm: "FindMember null_on_miss ?r (c_str s) = storage ?r + i"
    using i by (simp add: FindMember_def)
  have "Object_find null_on_miss obj s = RapidJsonObjectMemberIterator (storage ?r + i)"
    using st by (simp add: Object_find_eq fm)
  then show ?thesis
    using p by (simp add: Object_dereference_def member_at_def prod_eq_iff)
qed

lemma find_absent:
  assumes "map_of (members (node (object_ref obj))) (c_str s) = None"
  shows "Object_find null_on_miss obj s = Object_end obj"
proof -
  let ?r = "object_ref obj"
  have i: "first_named (c_str s) (members (node ?r)) = None"
    using assms by (simp add: first_named_None)
  have "FindMember null_on_miss ?r (c_str s) = (if null_on_miss then 0 else MemberEnd ?r)"
    using i by (simp add: FindMember_def)
  then show ?thesis by (simp add: Object_find_eq Object_end_def)
qed

text \<open>For a name without a zero character, and members not kept at the null pointer,
  \<open>Object_find\<close> finds the first member of that name, and returns \<open>end\<close> when there is
  none. On an empty object it returns \<open>end\<close> for any name.\<close>

lemma find_without_zero_character:
  assumes "placed (object_ref obj)" and "CHR 0x00 \<notin> set s"
  shows "(map_of (members (node (object_ref obj))) s = Some v \<longrightarrow>
            Object_dereference obj (Object_find null_on_miss obj s) = Some (s, v)) \<and>
         (map_of (members (node (object_ref obj))) s = None \<longrightarrow>
            Object_find null_on_miss obj s = Object_end obj)"
proof (intro conjI impI)
  have c: "c_str s = s" using assms(2) by (rule c_str_no_zero)
  {
    assume "map_of (members (node (object_ref obj))) s = Some v"
    then have "map_of (members (node (object_ref obj))) (c_str s) = Some v" by (simp add: c)
    with assms(1)
    have "Object_dereference obj (Object_find null_on_miss obj s) = Some (c_str s, v)"
      by (rule find_present)
    then show "Object_dereference obj (Object_find null_on_miss obj s) = Some (s, v)"
      by (simp add: c)
  }
  {
    assume "map_of (members (node (object_ref obj))) s = None"
    then have "map_of (members (node (object_ref obj))) (c_str s) = None" by (simp add: c)
    then show "Object_find null_on_miss obj s = Object_end obj" by (rule find_absent)
  }
qed

lemma find_on_empty:
  assumes "Object_size obj = 0"
  shows "Object_find null_on_miss obj s = Object_end obj"
proof -
  from assms have "members (node (object_ref obj)) = []"
    by (simp add: Object_size_def MemberEnd_def MemberBegin_def)
  then have "map_of (members (node (object_ref obj))) (c_str s) = None" by simp
  then show ?thesis by (rule find_absent)
qed

section \<open>The claims\<close>






text \<open>
  Claim C3. \<open>getInteger\<close> succeeds on every integer number, whichever setter wrote it,
  and when the integer held is at most 9223372036854775807 the 64-bit signed result is
  exactly that integer. On a number holding 9223372036854775807 it returns that value.
  On a double, fractional or not, it returns false and leaves the result alone.
\<close>

theorem getInteger_unifies:
  "(\<not> kDoubleFlag n \<and> integer_value n \<le> 9223372036854775807 \<longrightarrow>
      fst (getInteger (ValueRef p (VNumber n)) r) \<and>
      sint (snd (getInteger (ValueRef p (VNumber n)) r)) = integer_value n) \<and>
   getInteger (ValueRef p (VNumber (SetInt64 9223372036854775807))) r
     = (True, 9223372036854775807) \<and>
   getInteger (ValueRef p (VNumber (SetUint64 9223372036854775807))) r
     = (True, 9223372036854775807) \<and>
   getInteger (ValueRef p (VNumber (SetDouble d))) r = (False, r)"
proof (intro conjI impI)
  assume a: "\<not> kDoubleFlag n \<and> integer_value n \<le> 9223372036854775807"
  then have b: "\<not> kDoubleFlag n" "integer_value n < 9223372036854775808" by simp_all
  show "fst (getInteger (ValueRef p (VNumber n)) r)" using b by (rule getInteger_number(1))
  show "sint (snd (getInteger (ValueRef p (VNumber n)) r)) = integer_value n"
    using b by (rule getInteger_number(2))
next
  show "getInteger (ValueRef p (VNumber (SetInt64 9223372036854775807))) r
     = (True, 9223372036854775807)"
    by (simp add: getInteger_def)
next
  show "getInteger (ValueRef p (VNumber (SetUint64 9223372036854775807))) r
     = (True, 9223372036854775807)"
    by (simp add: getInteger_def)
next
  show "getInteger (ValueRef p (VNumber (SetDouble d))) r = (False, r)"
    by (simp add: getInteger_def)
qed

theorem getInteger_unifies_witness:
  "\<not> kDoubleFlag (SetUint 4000000000) \<and>
   integer_value (SetUint 4000000000) \<le> 9223372036854775807 \<and>
   fst (getInteger (ValueRef 0 (VNumber (SetUint 4000000000))) 0) \<and>
   sint (snd (getInteger (ValueRef 0 (VNumber (SetUint 4000000000))) 0)) = 4000000000"
  using getInteger_unifies [of "SetUint 4000000000" 0 0 NaN] by simp

text \<open>
  Claim C4. \<open>find\<close> should return an iterator to the member named \<open>s\<close> when the object
  has one and \<open>end\<close> when it has none. It does not for a name with a zero character in
  it: \<open>find\<close> hands the library what \<^verbatim>\<open>c_str()\<close> gives, and the library reads the
  name up to the first zero. Below, the name asked for is the three characters a, zero,
  b. On an object whose only member has that name, \<open>find\<close> returns \<open>end\<close>. On an object
  with a member named a and a member named a, zero, b, it returns the member named a. On
  an object whose only member is named a, it returns that member and not \<open>end\<close>.
\<close>

theorem find_zero_character:
  "map_of (members (node (object_ref (RapidJsonObject
      (ValueRef 64 (VObject [([CHR ''a'', CHR 0x00, CHR ''b''], VNull)])))))) [CHR ''a'', CHR 0x00, CHR ''b''] = Some VNull \<and>
   Object_find True (RapidJsonObject (ValueRef 64 (VObject [([CHR ''a'', CHR 0x00, CHR ''b''], VNull)]))) [CHR ''a'', CHR 0x00, CHR ''b'']
    = Object_end (RapidJsonObject (ValueRef 64 (VObject [([CHR ''a'', CHR 0x00, CHR ''b''], VNull)]))) \<and>
   Object_find False (RapidJsonObject (ValueRef 64 (VObject [([CHR ''a'', CHR 0x00, CHR ''b''], VNull)]))) [CHR ''a'', CHR 0x00, CHR ''b'']
    = Object_end (RapidJsonObject (ValueRef 64 (VObject [([CHR ''a'', CHR 0x00, CHR ''b''], VNull)]))) \<and>
   Object_dereference
     (RapidJsonObject
        (ValueRef 64 (VObject [(''a'', VNumber (SetInt 1)), ([CHR ''a'', CHR 0x00, CHR ''b''], VNumber (SetInt 2))])))
     (Object_find True
        (RapidJsonObject
           (ValueRef 64 (VObject [(''a'', VNumber (SetInt 1)), ([CHR ''a'', CHR 0x00, CHR ''b''], VNumber (SetInt 2))])))
        [CHR ''a'', CHR 0x00, CHR ''b''])
    = Some (''a'', VNumber (SetInt 1)) \<and>
   map_of (members (node (object_ref (RapidJsonObject
      (ValueRef 64 (VObject [(''a'', VNumber (SetInt 1))])))))) [CHR ''a'', CHR 0x00, CHR ''b''] = None \<and>
   Object_find True (RapidJsonObject (ValueRef 64 (VObject [(''a'', VNumber (SetInt 1))]))) [CHR ''a'', CHR 0x00, CHR ''b'']
    \<noteq> Object_end (RapidJsonObject (ValueRef 64 (VObject [(''a'', VNumber (SetInt 1))]))) \<and>
   Object_dereference (RapidJsonObject (ValueRef 64 (VObject [(''a'', VNumber (SetInt 1))])))
     (Object_find False
        (RapidJsonObject (ValueRef 64 (VObject [(''a'', VNumber (SetInt 1))]))) [CHR ''a'', CHR 0x00, CHR ''b''])
    = Some (''a'', VNumber (SetInt 1))"
  by (simp add: Object_find_def Let_def FindMember_def c_str_def MemberEnd_def MemberBegin_def
      Object_end_def Object_dereference_def member_at_def)

text \<open>
  Claim C5. Building an array view from a value that is not an array fails with
  \<open>TypeMismatch\<close>, and building an object view from a value that is not an object fails
  the same way; from a conforming value the construction succeeds and the view refers to
  that value.
\<close>

theorem view_construction:
  "(\<not> IsArray (node v) \<longrightarrow> RapidJsonArray_of v = Inl TypeMismatch) \<and>
   (IsArray (node v) \<longrightarrow> RapidJsonArray_of v = Inr (RapidJsonArray v)) \<and>
   (\<not> IsObject (node v) \<longrightarrow> RapidJsonObject_of v = Inl TypeMismatch) \<and>
   (IsObject (node v) \<longrightarrow> RapidJsonObject_of v = Inr (RapidJsonObject v))"
  by (simp add: RapidJsonArray_of_def RapidJsonObject_of_def)

theorem view_construction_witness:
  "\<not> IsArray (node (ValueRef 0 (VObject []))) \<and>
   RapidJsonArray_of (ValueRef 0 (VObject [])) = Inl TypeMismatch \<and>
   IsObject (node (ValueRef 0 (VObject []))) \<and>
   RapidJsonObject_of (ValueRef 0 (VObject []))
     = Inr (RapidJsonObject (ValueRef 0 (VObject []))) \<and>
   IsArray (node (ValueRef 8 (VArray [VNull]))) \<and>
   RapidJsonArray_of (ValueRef 8 (VArray [VNull]))
     = Inr (RapidJsonArray (ValueRef 8 (VArray [VNull]))) \<and>
   \<not> IsObject (node (ValueRef 8 (VArray [VNull]))) \<and>
   RapidJsonObject_of (ValueRef 8 (VArray [VNull])) = Inl TypeMismatch"
  using view_construction [of "ValueRef 0 (VObject [])"]
    view_construction [of "ValueRef 8 (VArray [VNull])"]
  by (simp add: IsArray_def IsObject_def)

text \<open>
  Claim C6. For an array view and for an object view, \<open>begin\<close> advanced \<open>size\<close> times is
  \<open>end\<close>, no earlier position is \<open>end\<close>, and the position reached after \<open>k\<close> steps
  dereferences to the \<open>k\<close>-th element or member of the underlying value. So a walk from
  \<open>begin\<close> to \<open>end\<close> yields \<open>size\<close> items, and every walk yields the same sequence.
\<close>

theorem iteration_matches_size:
  "(Array_increment ^^ Array_size a) (Array_begin a) = Array_end a \<and>
   (\<forall>k < Array_size a.
      \<not> Array_equal ((Array_increment ^^ k) (Array_begin a)) (Array_end a) \<and>
      Array_dereference a ((Array_increment ^^ k) (Array_begin a))
        = Some (elements (node (array_ref a)) ! k)) \<and>
   (Object_increment ^^ Object_size obj) (Object_begin obj) = Object_end obj \<and>
   (\<forall>k < Object_size obj.
      \<not> Object_equal ((Object_increment ^^ k) (Object_begin obj)) (Object_end obj) \<and>
      Object_dereference obj ((Object_increment ^^ k) (Object_begin obj))
        = Some (members (node (object_ref obj)) ! k))"
  by (simp add: Array_increment_funpow Object_increment_funpow Array_begin_def Array_end_def
      Array_size_def Size_def Begin_def End_def Array_equal_def Array_dereference_def
      element_at_def Object_begin_def Object_end_def Object_size_def MemberBegin_def
      MemberEnd_def Object_equal_def Object_dereference_def member_at_def)

theorem iteration_matches_size_witness:
  "(1::nat) < Array_size sample_array \<and>
   (Array_increment ^^ 3) (Array_begin sample_array) = Array_end sample_array \<and>
   \<not> Array_equal ((Array_increment ^^ 1) (Array_begin sample_array)) (Array_end sample_array) \<and>
   Array_dereference sample_array ((Array_increment ^^ 1) (Array_begin sample_array))
     = Some (VBool True) \<and>
   (1::nat) < Object_size sample_object \<and>
   (Object_increment ^^ 2) (Object_begin sample_object) = Object_end sample_object \<and>
   Object_dereference sample_object ((Object_increment ^^ 1) (Object_begin sample_object))
     = Some (''b'', VNumber (SetInt 2))"
proof -
  note t = iteration_matches_size [of sample_array sample_object]
  have sa: "Array_size sample_array = 3"
    by (simp add: sample_array_def Array_size_def Size_def)
  have so: "Object_size sample_object = 2"
    by (simp add: sample_object_def Object_size_def MemberEnd_def MemberBegin_def)
  have ea: "elements (node (array_ref sample_array)) ! Suc 0 = VBool True"
    by (simp add: sample_array_def)
  have eo: "members (node (object_ref sample_object)) ! Suc 0 = (''b'', VNumber (SetInt 2))"
    by (simp add: sample_object_def)
  have a3: "(Array_increment ^^ 3) (Array_begin sample_array) = Array_end sample_array"
    using t [THEN conjunct1] by (simp only: sa)
  have a1: "\<not> Array_equal ((Array_increment ^^ 1) (Array_begin sample_array))
        (Array_end sample_array) \<and>
      Array_dereference sample_array ((Array_increment ^^ 1) (Array_begin sample_array))
        = Some (VBool True)"
    using t [THEN conjunct2, THEN conjunct1, THEN spec, of 1] by (simp add: sa ea)
  have o2: "(Object_increment ^^ 2) (Object_begin sample_object) = Object_end sample_object"
    using t [THEN conjunct2, THEN conjunct2, THEN conjunct1] by (simp only: so)
  have o1: "Object_dereference sample_object
        ((Object_increment ^^ 1) (Object_begin sample_object))
        = Some (''b'', VNumber (SetInt 2))"
    using t [THEN conjunct2, THEN conjunct2, THEN conjunct2, THEN spec, of 1]
    by (simp add: so eo)
  show ?thesis using sa so a3 a1 o2 o1 by simp
qed

text \<open>
  Claim C7. The backend declares strict typing, and no value is both an integer and a
  double. Under the comparison of the generic adapter (modelled from the
  specification), the integer 4 and the double 4.0 are not equal when \<open>strict\<close> is true
  and are equal when it is false, whichever of the two is on the left.
\<close>

theorem strict_typing:
  "hasStrictTypes \<and>
   \<not> (isInteger v \<and> isDouble v) \<and>
   \<not> equalTo (VNumber (SetInt 4)) (VNumber (SetDouble (Finite 4))) True \<and>
   \<not> equalTo (VNumber (SetDouble (Finite 4))) (VNumber (SetInt 4)) True \<and>
   equalTo (VNumber (SetInt 4)) (VNumber (SetDouble (Finite 4))) False \<and>
   equalTo (VNumber (SetDouble (Finite 4))) (VNumber (SetInt 4)) False"
  using isInteger_not_isDouble [of v]
  by (simp add: hasStrictTypes_def number_equalTo_def numeric_value_def)

text \<open>
  Claim C8. A default-constructed \<open>RapidJsonValue\<close> wraps the empty object: it is an
  object, its member count is 0, and \<open>getBool\<close>, \<open>getDouble\<close>, \<open>getInteger\<close> and
  \<open>getString\<close> all fail on it. A default-constructed array view and a default-constructed
  object view have size 0 and \<open>begin\<close> equal to \<open>end\<close>.
\<close>

theorem default_constructed:
  "isObject RapidJsonValue_default \<and>
   getObjectSize RapidJsonValue_default n = (True, 0) \<and>
   getBool RapidJsonValue_default b = (False, b) \<and>
   getDouble RapidJsonValue_default d = (False, d) \<and>
   getInteger RapidJsonValue_default i = (False, i) \<and>
   getString RapidJsonValue_default s = (False, s) \<and>
   Array_size RapidJsonArray_default = 0 \<and>
   Array_equal (Array_begin RapidJsonArray_default) (Array_end RapidJsonArray_default) \<and>
   Object_size RapidJsonObject_default = 0 \<and>
   Object_equal (Object_begin RapidJsonObject_default) (Object_end RapidJsonObject_default)"
  by (simp add: RapidJsonValue_default_def RapidJsonValue_emptyObject_def
      RapidJsonObject_emptyObject_def RapidJsonArray_emptyArray_def isObject_def
      IsObject_def getObjectSize_def MemberEnd_def MemberBegin_def getBool_def IsBool_def
      getDouble_def getInteger_def getString_def IsString_def
      RapidJsonArray_default_def Array_size_def Size_def Array_equal_def Array_begin_def
      Array_end_def Begin_def End_def RapidJsonObject_default_def Object_size_def
      Object_equal_def Object_begin_def Object_end_def)

text \<open>
  Claim C9. When \<open>getBool\<close>, \<open>getDouble\<close>, \<open>getInteger\<close> or \<open>getString\<close> returns false,
  the caller's output variable holds what it held before the call.
\<close>

theorem getters_atomic:
  "(\<not> fst (getBool v b) \<longrightarrow> snd (getBool v b) = b) \<and>
   (\<not> fst (getDouble v d) \<longrightarrow> snd (getDouble v d) = d) \<and>
   (\<not> fst (getInteger v i) \<longrightarrow> snd (getInteger v i) = i) \<and>
   (\<not> fst (getString v s) \<longrightarrow> snd (getString v s) = s)"
  by (simp add: getBool_def getDouble_def getInteger_def getString_def)

theorem getters_atomic_witness:
  "\<not> fst (getBool (ValueRef 0 (VString ''x'')) True) \<and>
   snd (getBool (ValueRef 0 (VString ''x'')) True) = True \<and>
   \<not> fst (getDouble (ValueRef 0 (VString ''x'')) (Finite 5)) \<and>
   snd (getDouble (ValueRef 0 (VString ''x'')) (Finite 5)) = Finite 5 \<and>
   \<not> fst (getInteger (ValueRef 0 (VString ''x'')) 7) \<and>
   snd (getInteger (ValueRef 0 (VString ''x'')) 7) = 7 \<and>
   \<not> fst (getString (ValueRef 0 VNull) ''old'') \<and>
   snd (getString (ValueRef 0 VNull) ''old'') = ''old''"
  using getters_atomic [of "ValueRef 0 (VString ''x'')" True "Finite 5" 7 "''old''"]
    getters_atomic [of "ValueRef 0 VNull" True "Finite 5" 7 "''old''"]
  by (simp add: getBool_def getDouble_def getInteger_def getString_def IsBool_def IsString_def)

text \<open>
  Claim C10. \<open>getDouble\<close> succeeds exactly on the values for which \<open>isDouble\<close> holds and
  \<open>getInteger\<close> exactly on those for which \<open>isInteger\<close> holds; the two never both
  succeed on one value; on an integer number \<open>isNumber\<close> holds and \<open>getDouble\<close> fails.
\<close>

theorem no_numeric_cross_coercion:
  "fst (getDouble v d) = isDouble v \<and>
   fst (getInteger v i) = isInteger v \<and>
   \<not> (fst (getDouble v d) \<and> fst (getInteger v i)) \<and>
   (isInteger v \<longrightarrow> isNumber v \<and> \<not> fst (getDouble v d))"
proof -
  have gd: "fst (getDouble v d) = isDouble v" by (simp add: getDouble_def isDouble_def)
  have gi: "fst (getInteger v i) = isInteger v" by (auto simp add: getInteger_def isInteger_def)
  have num: "isInteger v \<Longrightarrow> isNumber v"
    by (cases "node v") (simp_all add: isInteger_def isNumber_def IsNumber_def)
  show ?thesis using gd gi num isInteger_not_isDouble [of v] by blast
qed

theorem no_numeric_cross_coercion_witness:
  "isInteger (ValueRef 0 (VNumber (SetInt 4))) \<and>
   isNumber (ValueRef 0 (VNumber (SetInt 4))) \<and>
   \<not> fst (getDouble (ValueRef 0 (VNumber (SetInt 4))) (Finite 0)) \<and>
   fst (getInteger (ValueRef 0 (VNumber (SetInt 4))) 0)"
  using no_numeric_cross_coercion [of "ValueRef 0 (VNumber (SetInt 4))" "Finite 0" 0]
  by (simp add: isInteger_def isNumber_def IsNumber_def isDouble_def)

end
